theory Spec2Isabelle
  imports Main "HOL-Library.Word"
begin

section \<open>JavaScript values\<close>

text \<open>
  The adapters and the factory are JavaScript: a message, a webhook body, a credential
  object and a result are all plain values. A number is an integer here (no input of the
  modelled code is a fraction or NaN), an object is an association list read by its first
  matching key, and a \<open>Date\<close> is kept as the argument its constructor was given.
\<close>

datatype jsval =
    JUndefined
  | JNull
  | JBool bool
  | JNum int
  | JStr string
  | JDate jsval
  | JArr "jsval list"
  | JObj "(string \<times> jsval) list"

text \<open>What \<open>if (v)\<close>, \<open>!v\<close> and \<open>a || b\<close> test.\<close>

fun truthy :: "jsval \<Rightarrow> bool" where
  "truthy JUndefined = False"
| "truthy JNull = False"
| "truthy (JBool b) = b"
| "truthy (JNum n) = (n \<noteq> 0)"
| "truthy (JStr s) = (s \<noteq> [])"
| "truthy (JDate v) = True"
| "truthy (JArr xs) = True"
| "truthy (JObj fs) = True"

text \<open>\<open>a || b\<close>, both operands already evaluated.\<close>

definition js_or :: "jsval \<Rightarrow> jsval \<Rightarrow> jsval" where
  "js_or a b = (if truthy a then a else b)"

text \<open>
  A thrown value. Every value thrown in the modelled code is an \<open>Error\<close> of the
  program's own, or a \<open>TypeError\<close> or \<open>SyntaxError\<close> of the runtime; a
  failure of a library call is the \<open>Error\<close> the library threw.
\<close>

datatype exn = Error string | TypeError string | SyntaxError string

fun message :: "exn \<Rightarrow> string" where
  "message (Error m) = m"
| "message (TypeError m) = m"
| "message (SyntaxError m) = m"

text \<open>
  \<open>v.k\<close>: reading a property of \<open>undefined\<close> or \<open>null\<close> throws a
  \<open>TypeError\<close>; an object gives the field or \<open>undefined\<close>; any other value has
  none of the fields the code reads.
\<close>

fun get_prop :: "jsval \<Rightarrow> string \<Rightarrow> exn + jsval" where
  "get_prop JUndefined k =
     Inl (TypeError (''Cannot read properties of undefined (reading '' @ [CHR 39] @ k @ [CHR 39] @ '')''))"
| "get_prop JNull k =
     Inl (TypeError (''Cannot read properties of null (reading '' @ [CHR 39] @ k @ [CHR 39] @ '')''))"
| "get_prop (JObj fs) k = Inr (case map_of fs k of None \<Rightarrow> JUndefined | Some v \<Rightarrow> v)"
| "get_prop v k = Inr JUndefined"

text \<open>The same read where the source has already read a property of the value.\<close>

definition field :: "jsval \<Rightarrow> string \<Rightarrow> jsval" where
  "field v k = (case get_prop v k of Inl e \<Rightarrow> JUndefined | Inr x \<Rightarrow> x)"

text \<open>\<open>v?.k\<close>: \<open>undefined\<close> when \<open>v\<close> is \<open>undefined\<close> or \<open>null\<close>.\<close>

definition opt_chain :: "jsval \<Rightarrow> string \<Rightarrow> jsval" where
  "opt_chain v k = field v k"

text \<open>
  \<open>const {a, b} = v\<close>: throws on \<open>undefined\<close> and \<open>null\<close>, and then reads
  each property.
\<close>

fun destructure :: "jsval \<Rightarrow> string \<Rightarrow> exn + unit" where
  "destructure JUndefined k =
     Inl (TypeError (''Cannot destructure property '' @ [CHR 39] @ k @ [CHR 39] @
        '' of '' @ [CHR 39] @ ''message'' @ [CHR 39] @ '' as it is undefined.''))"
| "destructure JNull k =
     Inl (TypeError (''Cannot destructure property '' @ [CHR 39] @ k @ [CHR 39] @
        '' of '' @ [CHR 39] @ ''message'' @ [CHR 39] @ '' as it is null.''))"
| "destructure v k = Inr ()"

text \<open>The decimal digits of an integer.\<close>

definition digit :: "nat \<Rightarrow> char" where
  "digit d = ''0123456789'' ! d"

fun nat_digits :: "nat \<Rightarrow> string \<Rightarrow> string" where
  "nat_digits n acc =
     (if n < 10 then digit n # acc else nat_digits (n div 10) (digit (n mod 10) # acc))"

definition number_text :: "int \<Rightarrow> string" where
  "number_text i =
     (if 0 \<le> i then nat_digits (nat i) [] else CHR ''-'' # nat_digits (nat (- i)) [])"

fun join_comma :: "string list \<Rightarrow> string" where
  "join_comma [] = []"
| "join_comma [s] = s"
| "join_comma (s # t # ss) = s @ '','' @ join_comma (t # ss)"

section \<open>What the code calls but does not define\<close>

type_synonym bytes = "8 word list"

text \<open>
  The libraries, the runtime and the clock are parameters of the model, and so are two
  methods the adapters inherit from the base class \<open>MessagingProvider\<close>
  (\<open>require('../MessagingProvider')\<close>, a file that is not available):
  \<open>normalizeStatus\<close> and \<open>hasRequiredCredentials\<close>. Each may throw
  (\<open>Inl\<close>).
\<close>

record env =
  clock :: int
    \<comment> \<open>\<open>Date.now()\<close> and \<open>new Date()\<close> at the moment of the call, in milliseconds\<close>
  toISOString :: "int \<Rightarrow> string"
  Number_toString :: "int \<Rightarrow> string"
    \<comment> \<open>the text of a number beyond the safe integers, which the runtime rounds and may
        write with an exponent\<close>
  JSON_parse :: "jsval \<Rightarrow> exn + jsval"
  ENCRYPTION_KEY :: "string option"
  TWILIO_MESSAGING_SERVICE_SID :: "string option"
  sha256 :: "string \<Rightarrow> bytes"
  decipher :: "bytes \<Rightarrow> bytes \<Rightarrow> jsval \<Rightarrow> exn + string"
    \<comment> \<open>\<open>createDecipheriv('aes-192-cbc', key, iv)\<close>, then \<open>update(data, 'hex', 'utf8')\<close>
        followed by \<open>final('utf8')\<close>\<close>
  twilio_client :: "jsval \<Rightarrow> jsval \<Rightarrow> exn + unit"
    \<comment> \<open>\<open>twilio(accountSid, authToken)\<close>\<close>
  validateRequest :: "jsval \<Rightarrow> jsval \<Rightarrow> jsval \<Rightarrow> jsval \<Rightarrow> exn + bool"
    \<comment> \<open>\<open>twilio.validateRequest(authToken, signature, url, body)\<close>\<close>
  messages_create :: "jsval \<Rightarrow> exn + jsval"
    \<comment> \<open>\<open>client.messages.create(payload)\<close>: the carrier's answer, or its rejection\<close>
  ses_sendEmail :: "jsval \<Rightarrow> exn + jsval"
    \<comment> \<open>\<open>ses.sendEmail(params).promise()\<close>\<close>
  normalizeStatus :: "jsval \<Rightarrow> exn + jsval"
  hasRequiredCredentials :: "jsval \<Rightarrow> string list \<Rightarrow> exn + bool"

text \<open>\<open>process.env.X || fallback\<close>: an unset or empty variable gives the fallback.\<close>

definition env_or :: "string option \<Rightarrow> jsval \<Rightarrow> jsval" where
  "env_or x d = (case x of None \<Rightarrow> d | Some s \<Rightarrow> js_or (JStr s) d)"

text \<open>
  \<open>`${v}`\<close>: the text of a value inside a template literal. An integer up to
  \<open>Number.MAX_SAFE_INTEGER\<close> in size is written with all its digits (every reading
  of the clock is one); the text of a larger number is the runtime's. The text of a
  \<open>Date\<close> is not modelled (it is written as the constructor call); no identifier the
  code interpolates is a \<open>Date\<close>.
\<close>

fun to_string :: "env \<Rightarrow> jsval \<Rightarrow> string" where
  "to_string E JUndefined = ''undefined''"
| "to_string E JNull = ''null''"
| "to_string E (JBool b) = (if b then ''true'' else ''false'')"
| "to_string E (JNum n) =
     (if \<bar>n\<bar> \<le> 9007199254740991 then number_text n else Number_toString E n)"
| "to_string E (JStr s) = s"
| "to_string E (JDate v) = ''Date('' @ to_string E v @ '')''"
| "to_string E (JArr xs) =
     join_comma (map (\<lambda>x. if x = JUndefined \<or> x = JNull then [] else to_string E x) xs)"
| "to_string E (JObj fs) = ''[object Object]''"

section \<open>The stores and the carriers\<close>

text \<open>
  A row of \<open>message_provider_mappings\<close> (migration 017), the ledger that joins a
  carrier's message id to a message.
\<close>

record mapping_row =
  message_id :: jsval
  row_channel :: string
  row_provider :: string
  provider_message_id :: jsval

text \<open>
  What a \<open>send\<close> can change: the ledger, and the requests handed to a carrier (in
  order).
\<close>

record world =
  ledger :: "mapping_row list"
  carrier_calls :: "jsval list"

datatype provider_kind = TwilioSms | TwilioWhatsApp | SESEmail | Demo

text \<open>
  Modelled from the spec: the constructor of \<open>MessagingProvider\<close>, which is not
  in the source. An adapter instance is built from (tenant, channel, credentials, config),
  and the adapters read these back as \<open>this.tenantId\<close>, \<open>this.channel\<close>,
  \<open>this.credentials\<close> and \<open>this.config\<close>; \<open>kind\<close> is the class of the
  instance.
\<close>

record messaging_provider =
  kind :: provider_kind
  tenantId :: string
  channel :: string
  credentials :: jsval
  config :: jsval

text \<open>A default parameter \<open>x = {}\<close>: only \<open>undefined\<close> takes the default.\<close>

definition default_obj :: "jsval \<Rightarrow> jsval" where
  "default_obj v = (if v = JUndefined then JObj [] else v)"

text \<open>
  Modelled from the spec: \<open>logError\<close> of \<open>MessagingProvider\<close>, which is not
  in the source. The spec has every failure logged and then resolved to a returned value,
  so the call reports and returns; only the evaluation of its arguments, which is in the
  source, can throw.
\<close>

definition logError :: "string \<Rightarrow> exn \<Rightarrow> unit" where
  "logError what e = ()"

section \<open>DemoProvider\<close>

definition DemoProvider_new :: "string \<Rightarrow> string \<Rightarrow> jsval \<Rightarrow> jsval \<Rightarrow> exn + messaging_provider" where
  "DemoProvider_new tid ch creds cfg =
     Inr \<lparr>kind = Demo, tenantId = tid, channel = ch, credentials = JObj [],
          config = default_obj cfg\<rparr>"

definition generateDemoMessageId :: "env \<Rightarrow> jsval \<Rightarrow> string" where
  "generateDemoMessageId E messageId =
     (let timestamp = clock E
      in ''demo-'' @ to_string E messageId @ ''-'' @ to_string E (JNum timestamp))"

definition DemoProvider_send_try :: "env \<Rightarrow> messaging_provider \<Rightarrow> jsval \<Rightarrow> world \<Rightarrow> world \<times> (exn + jsval)" where
  "DemoProvider_send_try E p msg w =
     (case get_prop msg ''id'' of
        Inl e \<Rightarrow> (w, Inl e)
      | Inr mid \<Rightarrow>
          (let demoMessageId = generateDemoMessageId E mid
           in (w, Inr (JObj [(''success'', JBool True),
                             (''provider_message_id'', JStr demoMessageId),
                             (''status'', JStr ''sent''),
                             (''provider'', JStr ''demo''),
                             (''demo'', JBool True)]))))"

definition DemoProvider_send :: "env \<Rightarrow> messaging_provider \<Rightarrow> jsval \<Rightarrow> world \<Rightarrow> world \<times> (exn + jsval)" where
  "DemoProvider_send E p msg w =
     (case DemoProvider_send_try E p msg w of
        (w', Inr r) \<Rightarrow> (w', Inr r)
      | (w', Inl error) \<Rightarrow>
          (w', Inr (JObj [(''success'', JBool False),
                          (''error'', JStr (message error)),
                          (''provider'', JStr ''demo''),
                          (''demo'', JBool True)])))"

definition DemoProvider_parseWebhook_try :: "env \<Rightarrow> messaging_provider \<Rightarrow> jsval \<Rightarrow> jsval \<Rightarrow> exn + jsval" where
  "DemoProvider_parseWebhook_try E p body signature =
     (case get_prop body ''provider_message_id'' of
        Inl e \<Rightarrow> Inl e
      | Inr pmid \<Rightarrow>
          if \<not> truthy pmid then Inl (Error ''provider_message_id missing from demo webhook'')
          else
            (case normalizeStatus E (field body ''status'') of
               Inl e \<Rightarrow> Inl e
             | Inr st \<Rightarrow>
                 Inr (JObj [(''provider_message_id'', pmid),
                            (''status'', st),
                            (''timestamp'',
                               JDate (js_or (field body ''timestamp'') (JDate (JNum (clock E))))),
                            (''demo'', JBool True)])))"

definition DemoProvider_parseWebhook :: "env \<Rightarrow> messaging_provider \<Rightarrow> jsval \<Rightarrow> jsval \<Rightarrow> exn + jsval" where
  "DemoProvider_parseWebhook E p body signature =
     (case DemoProvider_parseWebhook_try E p body signature of
        Inr r \<Rightarrow> Inr r
      | Inl error \<Rightarrow>
          Inr (JObj [(''error'', JStr (message error)),
                     (''status'', JStr ''unknown''),
                     (''demo'', JBool True)]))"

section \<open>TwilioSmsProvider\<close>

text \<open>
  The constructor, which \<open>TwilioWhatsAppProvider\<close> inherits unchanged: \<open>k\<close> is
  the class being instantiated.
\<close>

definition TwilioSmsProvider_new ::
  "env \<Rightarrow> provider_kind \<Rightarrow> string \<Rightarrow> string \<Rightarrow> jsval \<Rightarrow> jsval \<Rightarrow> exn + messaging_provider" where
  "TwilioSmsProvider_new E k tid ch creds cfg =
     (case hasRequiredCredentials E creds [''accountSid'', ''authToken''] of
        Inl e \<Rightarrow> Inl e
      | Inr ok \<Rightarrow>
          if \<not> ok then
            Inl (Error ''Twilio SMS: Missing required credentials (accountSid, authToken)'')
          else
            (case get_prop creds ''accountSid'' of
               Inl e \<Rightarrow> Inl e
             | Inr sid \<Rightarrow>
                 (case twilio_client E sid (field creds ''authToken'') of
                    Inl e \<Rightarrow> Inl e
                  | Inr u \<Rightarrow>
                      Inr \<lparr>kind = k, tenantId = tid, channel = ch, credentials = creds,
                           config = default_obj cfg\<rparr>)))"

text \<open>The body of the \<open>try\<close> block of \<open>send\<close>.\<close>

definition TwilioSmsProvider_send_try :: "env \<Rightarrow> messaging_provider \<Rightarrow> jsval \<Rightarrow> world \<Rightarrow> world \<times> (exn + jsval)" where
  "TwilioSmsProvider_send_try E p msg w =
     (case destructure msg ''phone_number'' of
        Inl e \<Rightarrow> (w, Inl e)
      | Inr u \<Rightarrow>
          (let phone_number = field msg ''phone_number'';
               content = field msg ''content'';
               messageId = field msg ''id'';
               from_number = field msg ''from_number''
           in case (if truthy from_number then Inr from_number
                    else get_prop (config p) ''phone_number'') of
                Inl e \<Rightarrow> (w, Inl e)
              | Inr fromNumber \<Rightarrow>
                  if \<not> truthy fromNumber then
                    (w, Inl (Error ''No phone number configured for tenant''))
                  else if \<not> truthy phone_number then
                    (w, Inl (Error ''Recipient phone number missing''))
                  else
                    (case get_prop (config p) ''messaging_service_sid'' of
                       Inl e \<Rightarrow> (w, Inl e)
                     | Inr cfg_sid \<Rightarrow>
                         (let messagingServiceSid =
                                js_or cfg_sid (env_or (TWILIO_MESSAGING_SERVICE_SID E) JNull);
                              payload = [(''to'', phone_number), (''body'', content)]
                          in case (if truthy messagingServiceSid then
                                     Inr (JObj (payload @ [(''messagingServiceSid'', messagingServiceSid)]))
                                   else if truthy fromNumber then
                                     Inr (JObj (payload @ [(''from'', fromNumber)]))
                                   else
                                     Inl (Error ''No messaging service sid or phone number configured for tenant'')) of
                               Inl e \<Rightarrow> (w, Inl e)
                             | Inr payload' \<Rightarrow>
                                 (let w' = w\<lparr>carrier_calls := carrier_calls w @ [payload']\<rparr>
                                  in case messages_create E payload' of
                                       Inl e \<Rightarrow> (w', Inl e)
                                     | Inr result \<Rightarrow>
                                         (case get_prop result ''sid'' of
                                            Inl e \<Rightarrow> (w', Inl e)
                                          | Inr sid \<Rightarrow>
                                              (w', Inr (JObj [(''success'', JBool True),
                                                              (''provider_message_id'', sid),
                                                              (''status'', JStr ''sent''),
                                                              (''provider'', JStr ''twilio'')]))))))))"

text \<open>
  \<open>send\<close>: the \<open>catch\<close> block builds the argument
  \<open>{ phone_number: message.phone_number }\<close> of \<open>logError\<close> before it returns; an
  exception there leaves the function (the promise rejects).
\<close>

definition TwilioSmsProvider_send :: "env \<Rightarrow> messaging_provider \<Rightarrow> jsval \<Rightarrow> world \<Rightarrow> world \<times> (exn + jsval)" where
  "TwilioSmsProvider_send E p msg w =
     (case TwilioSmsProvider_send_try E p msg w of
        (w', Inr r) \<Rightarrow> (w', Inr r)
      | (w', Inl error) \<Rightarrow>
          (case get_prop msg ''phone_number'' of
             Inl e \<Rightarrow> (w', Inl e)
           | Inr pn \<Rightarrow>
               (let u = logError ''SMS send'' error
                in (w', Inr (JObj [(''success'', JBool False),
                                   (''error'', JStr (message error)),
                                   (''provider'', JStr ''twilio'')])))))"

definition verifyWebhookSignature :: "env \<Rightarrow> messaging_provider \<Rightarrow> jsval \<Rightarrow> jsval \<Rightarrow> bool" where
  "verifyWebhookSignature E p body signature =
     (case get_prop (config p) ''webhook_url'' of
        Inl e \<Rightarrow> False
      | Inr url \<Rightarrow>
          (let webhookUrl = js_or url (JStr [])
           in case get_prop (credentials p) ''authToken'' of
                Inl e \<Rightarrow> False
              | Inr authToken \<Rightarrow>
                  (case validateRequest E authToken signature webhookUrl body of
                     Inl e \<Rightarrow> False
                   | Inr ok \<Rightarrow> ok)))"

definition TwilioSmsProvider_parseWebhook_try :: "env \<Rightarrow> messaging_provider \<Rightarrow> jsval \<Rightarrow> jsval \<Rightarrow> exn + jsval" where
  "TwilioSmsProvider_parseWebhook_try E p body signature =
     (if \<not> verifyWebhookSignature E p body signature then
        Inl (Error ''Invalid webhook signature'')
      else
        (case get_prop body ''MessageSid'' of
           Inl e \<Rightarrow> Inl e
         | Inr messageId \<Rightarrow>
             (let status = field body ''MessageStatus''
              in if \<not> truthy messageId then Inl (Error ''MessageSid missing from webhook'')
                 else
                   (case normalizeStatus E status of
                      Inl e \<Rightarrow> Inl e
                    | Inr st \<Rightarrow>
                        Inr (JObj [(''provider_message_id'', messageId),
                                   (''status'', st),
                                   (''timestamp'', JDate (JNum (clock E))),
                                   (''raw'', body)])))))"

definition TwilioSmsProvider_parseWebhook :: "env \<Rightarrow> messaging_provider \<Rightarrow> jsval \<Rightarrow> jsval \<Rightarrow> exn + jsval" where
  "TwilioSmsProvider_parseWebhook E p body signature =
     (case TwilioSmsProvider_parseWebhook_try E p body signature of
        Inr r \<Rightarrow> Inr r
      | Inl error \<Rightarrow>
          (let u = logError ''Webhook parsing'' error
           in Inr (JObj [(''error'', JStr (message error)),
                         (''status'', JStr ''unknown'')])))"

section \<open>TwilioWhatsAppProvider\<close>

definition TwilioWhatsAppProvider_send_try :: "env \<Rightarrow> messaging_provider \<Rightarrow> jsval \<Rightarrow> world \<Rightarrow> world \<times> (exn + jsval)" where
  "TwilioWhatsAppProvider_send_try E p msg w =
     (case destructure msg ''phone_number'' of
        Inl e \<Rightarrow> (w, Inl e)
      | Inr u \<Rightarrow>
          (let phone_number = field msg ''phone_number'';
               content = field msg ''content'';
               messageId = field msg ''id'';
               from_number = field msg ''from_number''
           in case (if truthy from_number then Inr from_number
                    else get_prop (config p) ''whatsapp_number'') of
                Inl e \<Rightarrow> (w, Inl e)
              | Inr fromNumber \<Rightarrow>
                  if \<not> truthy fromNumber then
                    (w, Inl (Error ''No WhatsApp Business Account number configured for tenant''))
                  else if \<not> truthy phone_number then
                    (w, Inl (Error ''Recipient phone number missing''))
                  else
                    (let payload = JObj [(''from'', JStr (''whatsapp:'' @ to_string E fromNumber)),
                                         (''to'', JStr (''whatsapp:'' @ to_string E phone_number)),
                                         (''body'', content)];
                         w' = w\<lparr>carrier_calls := carrier_calls w @ [payload]\<rparr>
                     in case messages_create E payload of
                          Inl e \<Rightarrow> (w', Inl e)
                        | Inr result \<Rightarrow>
                            (case get_prop result ''sid'' of
                               Inl e \<Rightarrow> (w', Inl e)
                             | Inr sid \<Rightarrow>
                                 (w', Inr (JObj [(''success'', JBool True),
                                                 (''provider_message_id'', sid),
                                                 (''status'', JStr ''sent''),
                                                 (''provider'', JStr ''twilio'')]))))))"

definition TwilioWhatsAppProvider_send :: "env \<Rightarrow> messaging_provider \<Rightarrow> jsval \<Rightarrow> world \<Rightarrow> world \<times> (exn + jsval)" where
  "TwilioWhatsAppProvider_send E p msg w =
     (case TwilioWhatsAppProvider_send_try E p msg w of
        (w', Inr r) \<Rightarrow> (w', Inr r)
      | (w', Inl error) \<Rightarrow>
          (case get_prop msg ''phone_number'' of
             Inl e \<Rightarrow> (w', Inl e)
           | Inr pn \<Rightarrow>
               (let u = logError ''WhatsApp send'' error
                in (w', Inr (JObj [(''success'', JBool False),
                                   (''error'', JStr (message error)),
                                   (''provider'', JStr ''twilio'')])))))"

text \<open>
  \<open>parseWebhook\<close> calls the parent's, reads \<open>parent.error\<close>, and returns the
  parent's result on both branches.
\<close>

definition TwilioWhatsAppProvider_parseWebhook :: "env \<Rightarrow> messaging_provider \<Rightarrow> jsval \<Rightarrow> jsval \<Rightarrow> exn + jsval" where
  "TwilioWhatsAppProvider_parseWebhook E p body signature =
     (case TwilioSmsProvider_parseWebhook E p body signature of
        Inl e \<Rightarrow> Inl e
      | Inr parent \<Rightarrow>
          (case get_prop parent ''error'' of
             Inl e \<Rightarrow> Inl e
           | Inr err \<Rightarrow> if truthy err then Inr parent else Inr parent))"

section \<open>SESEmailProvider\<close>

definition SESEmailProvider_new ::
  "env \<Rightarrow> string \<Rightarrow> string \<Rightarrow> jsval \<Rightarrow> jsval \<Rightarrow> exn + messaging_provider" where
  "SESEmailProvider_new E tid ch creds cfg =
     (case hasRequiredCredentials E creds [''accessKeyId'', ''secretAccessKey'', ''region''] of
        Inl e \<Rightarrow> Inl e
      | Inr ok \<Rightarrow>
          if \<not> ok then
            Inl (Error ''AWS SES: Missing required credentials (accessKeyId, secretAccessKey, region)'')
          else
            (case get_prop creds ''region'' of
               Inl e \<Rightarrow> Inl e
             | Inr region \<Rightarrow>
                 Inr \<lparr>kind = SESEmail, tenantId = tid, channel = ch, credentials = creds,
                      config = default_obj cfg\<rparr>))"

definition SESEmailProvider_send_try :: "env \<Rightarrow> messaging_provider \<Rightarrow> jsval \<Rightarrow> world \<Rightarrow> world \<times> (exn + jsval)" where
  "SESEmailProvider_send_try E p msg w =
     (case destructure msg ''to_email'' of
        Inl e \<Rightarrow> (w, Inl e)
      | Inr u \<Rightarrow>
          (let to_email = field msg ''to_email'';
               subject = field msg ''subject'';
               html_body = field msg ''html_body'';
               text_body = field msg ''text_body'';
               from_email = field msg ''from_email'';
               messageId = field msg ''id''
           in if \<not> truthy to_email \<or> \<not> truthy subject \<or> \<not> truthy html_body \<or> \<not> truthy from_email then
                (w, Inl (Error ''Missing required email fields: to_email, subject, html_body, from_email''))
              else
                (case get_prop (config p) ''configuration_set'' of
                   Inl e \<Rightarrow> (w, Inl e)
                 | Inr cs \<Rightarrow>
                     (let params = JObj
                            [(''Source'', from_email),
                             (''Destination'', JObj [(''ToAddresses'', JArr [to_email])]),
                             (''Message'', JObj
                                [(''Subject'', JObj [(''Data'', subject), (''Charset'', JStr ''UTF-8'')]),
                                 (''Body'', JObj
                                    [(''Html'', JObj [(''Data'', html_body), (''Charset'', JStr ''UTF-8'')]),
                                     (''Text'',
                                        if truthy text_body then
                                          JObj [(''Data'', text_body), (''Charset'', JStr ''UTF-8'')]
                                        else JUndefined)])]),
                             (''ConfigurationSetName'', js_or cs (JStr ''engageninja-email-events'')),
                             (''Tags'', JArr
                                [JObj [(''Name'', JStr ''tenant_id''), (''Value'', JStr (tenantId p))],
                                 JObj [(''Name'', JStr ''message_id''), (''Value'', messageId)]])];
                          w' = w\<lparr>carrier_calls := carrier_calls w @ [params]\<rparr>
                      in case ses_sendEmail E params of
                           Inl e \<Rightarrow> (w', Inl e)
                         | Inr result \<Rightarrow>
                             (case get_prop result ''MessageId'' of
                                Inl e \<Rightarrow> (w', Inl e)
                              | Inr mid \<Rightarrow>
                                  (w', Inr (JObj [(''success'', JBool True),
                                                  (''provider_message_id'', mid),
                                                  (''status'', JStr ''sent''),
                                                  (''provider'', JStr ''aws_ses'')])))))))"

definition SESEmailProvider_send :: "env \<Rightarrow> messaging_provider \<Rightarrow> jsval \<Rightarrow> world \<Rightarrow> world \<times> (exn + jsval)" where
  "SESEmailProvider_send E p msg w =
     (case SESEmailProvider_send_try E p msg w of
        (w', Inr r) \<Rightarrow> (w', Inr r)
      | (w', Inl error) \<Rightarrow>
          (case get_prop msg ''to_email'' of
             Inl e \<Rightarrow> (w', Inl e)
           | Inr te \<Rightarrow>
               (let u = logError ''Email send'' error
                in (w', Inr (JObj [(''success'', JBool False),
                                   (''error'', JStr (message error)),
                                   (''provider'', JStr ''aws_ses'')])))))"

text \<open>The \<open>switch\<close> over the event type, with \<open>'unknown'\<close> as the initial value.\<close>

definition ses_event_status :: "jsval \<Rightarrow> string" where
  "ses_event_status eventType =
     (if eventType = JStr ''Send'' then ''sent''
      else if eventType = JStr ''Delivery'' then ''delivered''
      else if eventType = JStr ''Bounce'' then ''failed''
      else if eventType = JStr ''Complaint'' then ''failed''
      else if eventType = JStr ''Open'' then ''read''
      else if eventType = JStr ''Click'' then ''read''
      else ''unknown'')"

text \<open>The unwrapping of an SNS envelope, the first statement of the \<open>try\<close> block.\<close>

definition ses_unwrap :: "env \<Rightarrow> jsval \<Rightarrow> exn + jsval" where
  "ses_unwrap E body =
     (case get_prop body ''Type'' of
        Inl e \<Rightarrow> Inl e
      | Inr ty \<Rightarrow>
          if ty = JStr ''Notification'' \<and> truthy (field body ''Message'')
          then JSON_parse E (field body ''Message'')
          else Inr body)"

definition SESEmailProvider_parseWebhook_try :: "env \<Rightarrow> messaging_provider \<Rightarrow> jsval \<Rightarrow> jsval \<Rightarrow> exn + jsval" where
  "SESEmailProvider_parseWebhook_try E p body signature =
     (case ses_unwrap E body of
        Inl e \<Rightarrow> Inl e
      | Inr event \<Rightarrow>
          (case get_prop event ''mail'' of
             Inl e \<Rightarrow> Inl e
           | Inr mail \<Rightarrow>
               if \<not> truthy mail \<or> \<not> truthy (field mail ''messageId'') then
                 Inl (Error ''Invalid SES event structure'')
               else
                 (let messageId = field mail ''messageId'';
                      eventType = field event ''eventType'';
                      status = ses_event_status eventType;
                      timestamp =
                        js_or (opt_chain (field event ''delivery'') ''timestamp'')
                          (js_or (opt_chain (field event ''bounce'') ''timestamp'')
                             (js_or (opt_chain (field event ''complaint'') ''timestamp'')
                                (JStr (toISOString E (clock E)))))
                  in case normalizeStatus E (JStr status) of
                       Inl e \<Rightarrow> Inl e
                     | Inr st \<Rightarrow>
                         Inr (JObj [(''provider_message_id'', messageId),
                                    (''status'', st),
                                    (''timestamp'', JDate timestamp),
                                    (''event_type'', eventType),
                                    (''raw'', event)]))))"

definition SESEmailProvider_parseWebhook :: "env \<Rightarrow> messaging_provider \<Rightarrow> jsval \<Rightarrow> jsval \<Rightarrow> exn + jsval" where
  "SESEmailProvider_parseWebhook E p body signature =
     (case SESEmailProvider_parseWebhook_try E p body signature of
        Inr r \<Rightarrow> Inr r
      | Inl error \<Rightarrow>
          (let u = logError ''Webhook parsing'' error
           in Inr (JObj [(''error'', JStr (message error)),
                         (''status'', JStr ''unknown'')])))"

section \<open>The adapter contract\<close>

text \<open>A call of \<open>provider.send(message)\<close> runs the method of the instance's class.\<close>

definition send :: "env \<Rightarrow> messaging_provider \<Rightarrow> jsval \<Rightarrow> world \<Rightarrow> world \<times> (exn + jsval)" where
  "send E p msg w =
     (case kind p of
        TwilioSms \<Rightarrow> TwilioSmsProvider_send E p msg w
      | TwilioWhatsApp \<Rightarrow> TwilioWhatsAppProvider_send E p msg w
      | SESEmail \<Rightarrow> SESEmailProvider_send E p msg w
      | Demo \<Rightarrow> DemoProvider_send E p msg w)"

definition parseWebhook :: "env \<Rightarrow> messaging_provider \<Rightarrow> jsval \<Rightarrow> jsval \<Rightarrow> exn + jsval" where
  "parseWebhook E p body signature =
     (case kind p of
        TwilioSms \<Rightarrow> TwilioSmsProvider_parseWebhook E p body signature
      | TwilioWhatsApp \<Rightarrow> TwilioWhatsAppProvider_parseWebhook E p body signature
      | SESEmail \<Rightarrow> SESEmailProvider_parseWebhook E p body signature
      | Demo \<Rightarrow> DemoProvider_parseWebhook E p body signature)"

text \<open>
  The \<open>try\<close> block that a call of \<open>parseWebhook\<close> runs: the WhatsApp adapter runs
  its parent's.
\<close>

definition parseWebhook_try :: "env \<Rightarrow> messaging_provider \<Rightarrow> jsval \<Rightarrow> jsval \<Rightarrow> exn + jsval" where
  "parseWebhook_try E p body signature =
     (case kind p of
        TwilioSms \<Rightarrow> TwilioSmsProvider_parseWebhook_try E p body signature
      | TwilioWhatsApp \<Rightarrow> TwilioSmsProvider_parseWebhook_try E p body signature
      | SESEmail \<Rightarrow> SESEmailProvider_parseWebhook_try E p body signature
      | Demo \<Rightarrow> DemoProvider_parseWebhook_try E p body signature)"

section \<open>The provider factory\<close>

text \<open>
  The rows the two queries select: \<open>id\<close> (here \<open>tenant_id\<close>) and
  \<open>is_demo\<close> of \<open>tenants\<close>, and three columns of
  \<open>tenant_channel_credentials_v2\<close>, which has one row for a tenant and a channel.
\<close>

record tenant_row =
  tenant_id :: string
  is_demo :: jsval

record creds_row =
  provider :: string
  credentials_json_encrypted :: jsval
  provider_config_json :: jsval

record db =
  tenants :: "string \<Rightarrow> tenant_row option"
  tenant_channel_credentials_v2 :: "string \<times> string \<Rightarrow> creds_row option"

definition encryptionKey :: "env \<Rightarrow> string" where
  "encryptionKey E =
     (case ENCRYPTION_KEY E of
        None \<Rightarrow> ''default-dev-key-change-in-production''
      | Some s \<Rightarrow> if s = [] then ''default-dev-key-change-in-production'' else s)"

definition decryption_failed :: exn where
  "decryption_failed = Error ''Invalid credentials - decryption failed''"

definition decryptCredentials :: "env \<Rightarrow> jsval \<Rightarrow> exn + jsval" where
  "decryptCredentials E encryptedData =
     (if \<not> truthy encryptedData then Inr JNull
      else
        (let key = take 24 (sha256 E (encryptionKey E));
             iv = replicate 16 (0 :: 8 word)
         in case decipher E key iv encryptedData of
              Inl e \<Rightarrow> Inl decryption_failed
            | Inr decrypted \<Rightarrow>
                (case JSON_parse E (JStr decrypted) of
                   Inl e \<Rightarrow> Inl decryption_failed
                 | Inr v \<Rightarrow> Inr v)))"

text \<open>
  What \<open>getProvider\<close> does besides computing its result, in order: the two queries, the
  call of \<open>decryptCredentials\<close>, and the constructor it runs with its arguments.
\<close>

datatype event =
    QueryTenant string
  | QueryCredentials string string
  | Decrypt jsval
  | Construct provider_kind string string jsval jsval

definition getProvider :: "env \<Rightarrow> db \<Rightarrow> string \<Rightarrow> string \<Rightarrow> event list \<times> (exn + messaging_provider)" where
  "getProvider E d tid ch =
     (let t1 = [QueryTenant tid]
      in case tenants d tid of
           None \<Rightarrow> (t1, Inl (Error (''Tenant not found: '' @ tid)))
         | Some tenant \<Rightarrow>
             if truthy (is_demo tenant) then
               (t1 @ [Construct Demo tid ch JUndefined JUndefined],
                DemoProvider_new tid ch JUndefined JUndefined)
             else
               (let t2 = t1 @ [QueryCredentials tid ch]
                in case tenant_channel_credentials_v2 d (tid, ch) of
                     None \<Rightarrow>
                       (t2, Inl (Error (''No provider configured for tenant '' @ tid @
                                        '', channel '' @ ch)))
                   | Some creds \<Rightarrow>
                       (let t3 = t2 @ [Decrypt (credentials_json_encrypted creds)]
                        in case decryptCredentials E (credentials_json_encrypted creds) of
                             Inl e \<Rightarrow> (t3, Inl e)
                           | Inr decrypted \<Rightarrow>
                               (case (if truthy (provider_config_json creds)
                                      then JSON_parse E (provider_config_json creds)
                                      else Inr (JObj [])) of
                                  Inl e \<Rightarrow> (t3, Inl e)
                                | Inr cfg \<Rightarrow>
                                    if provider creds = ''twilio'' then
                                      (if ch = ''sms'' then
                                         (t3 @ [Construct TwilioSms tid ch decrypted cfg],
                                          TwilioSmsProvider_new E TwilioSms tid ch decrypted cfg)
                                       else if ch = ''whatsapp'' then
                                         (t3 @ [Construct TwilioWhatsApp tid ch decrypted cfg],
                                          TwilioSmsProvider_new E TwilioWhatsApp tid ch decrypted cfg)
                                       else
                                         (t3, Inl (Error (''Twilio does not support channel: '' @ ch))))
                                    else if provider creds = ''aws_ses'' then
                                      (if ch = ''email'' then
                                         (t3 @ [Construct SESEmail tid ch decrypted cfg],
                                          SESEmailProvider_new E tid ch decrypted cfg)
                                       else
                                         (t3, Inl (Error (''AWS SES does not support channel: '' @ ch))))
                                    else
                                      (t3, Inl (Error (''Unknown provider: '' @ provider creds)))))))"

section \<open>Sample inputs\<close>

text \<open>
  Modelled from the spec: \<open>normalizeStatus\<close> of \<open>MessagingProvider\<close>, which
  is not in the source. The spec's normalized statuses are sent, delivered, read, failed and
  unknown; \<open>delivered\<close> is kept, \<open>failed\<close> and \<open>undelivered\<close> give
  \<open>failed\<close>, a normalized name passes through and anything unrecognized is
  \<open>unknown\<close>.
\<close>

definition spec_normalizeStatus :: "jsval \<Rightarrow> exn + jsval" where
  "spec_normalizeStatus v =
     (case v of
        JStr s \<Rightarrow>
          Inr (JStr (if s \<in> set [''sent'', ''delivered'', ''read'', ''failed''] then s
                     else if s = ''undelivered'' then ''failed''
                     else ''unknown''))
      | _ \<Rightarrow> Inr (JStr ''unknown''))"

text \<open>
  A stand-in for \<open>hasRequiredCredentials\<close> in the examples: every named field of the
  credentials is present, and a missing credentials object has none.
\<close>

definition sample_hasRequiredCredentials :: "jsval \<Rightarrow> string list \<Rightarrow> exn + bool" where
  "sample_hasRequiredCredentials creds ks = Inr (list_all (\<lambda>k. truthy (field creds k)) ks)"

text \<open>The JSON texts of the examples, and the values they parse to.\<close>

definition bounce_json :: string where
  \<open>bounce_json = ''{"eventType":"Bounce","mail":{"messageId":"E1"}}''\<close>

definition bounce_event :: jsval where
  "bounce_event =
     JObj [(''eventType'', JStr ''Bounce''), (''mail'', JObj [(''messageId'', JStr ''E1'')])]"

definition twilio_creds_json :: string where
  \<open>twilio_creds_json = ''{"accountSid":"AC1","authToken":"tok"}''\<close>

definition twilio_creds :: jsval where
  "twilio_creds = JObj [(''accountSid'', JStr ''AC1''), (''authToken'', JStr ''tok'')]"

definition sample_JSON_parse :: "jsval \<Rightarrow> exn + jsval" where
  "sample_JSON_parse v =
     (if v = JStr bounce_json then Inr bounce_event
      else if v = JStr twilio_creds_json then Inr twilio_creds
      else Inl (SyntaxError ''Unexpected token in JSON''))"

text \<open>
  An environment for the examples: the clock reads 1703081234567 (and no example has a
  larger number: the stand-in for the text of one is the text of \<open>10^21\<close>), no
  environment variable is set, the cipher decrypts the one blob \<open>c0ffee\<close>, a signature is valid
  when it is the text \<open>valid\<close>, and both carriers accept every request.
\<close>

definition sample_env :: env where
  "sample_env =
     \<lparr>clock = 1703081234567,
      toISOString = (\<lambda>t. ''2023-12-20T14:07:14.567Z''),
      Number_toString = (\<lambda>n. ''1e+21''),
      JSON_parse = sample_JSON_parse,
      ENCRYPTION_KEY = None,
      TWILIO_MESSAGING_SERVICE_SID = None,
      sha256 = (\<lambda>s. replicate 32 0),
      decipher = (\<lambda>key iv data.
         if data = JStr ''c0ffee'' then Inr twilio_creds_json else Inl (Error ''bad decrypt'')),
      twilio_client = (\<lambda>sid tok. Inr ()),
      validateRequest = (\<lambda>tok sg url body. Inr (sg = JStr ''valid'')),
      messages_create = (\<lambda>payload. Inr (JObj [(''sid'', JStr ''CM123'')])),
      ses_sendEmail = (\<lambda>params. Inr (JObj [(''MessageId'', JStr ''E1'')])),
      normalizeStatus = spec_normalizeStatus,
      hasRequiredCredentials = sample_hasRequiredCredentials\<rparr>"

definition sample_world :: world where
  "sample_world = \<lparr>ledger = [], carrier_calls = []\<rparr>"

definition sample_demo :: messaging_provider where
  "sample_demo =
     \<lparr>kind = Demo, tenantId = ''t1'', channel = ''sms'', credentials = JObj [], config = JObj []\<rparr>"

definition sample_twilio :: messaging_provider where
  "sample_twilio =
     \<lparr>kind = TwilioSms, tenantId = ''t2'', channel = ''sms'', credentials = twilio_creds,
      config = JObj [(''phone_number'', JStr ''+15550001111'')]\<rparr>"

text \<open>A tenant whose only sender configuration is a messaging service.\<close>

definition sample_twilio_pooled :: messaging_provider where
  "sample_twilio_pooled =
     \<lparr>kind = TwilioSms, tenantId = ''t3'', channel = ''sms'', credentials = twilio_creds,
      config = JObj [(''messaging_service_sid'', JStr ''MG123'')]\<rparr>"

definition sample_ses :: messaging_provider where
  "sample_ses =
     \<lparr>kind = SESEmail, tenantId = ''t2'', channel = ''email'',
      credentials = JObj [(''accessKeyId'', JStr ''AK''), (''secretAccessKey'', JStr ''sk''),
                          (''region'', JStr ''us-east-1'')],
      config = JObj []\<rparr>"

definition sample_sms :: jsval where
  "sample_sms =
     JObj [(''id'', JStr ''m1''), (''phone_number'', JStr ''+15550002222''),
           (''content'', JStr ''hi'')]"

text \<open>
  A store with a demo tenant \<open>t1\<close> that also has a stored carrier row; a tenant
  \<open>t2\<close> with an SMS row whose blob is empty and an email row that names the SMS
  carrier; a tenant \<open>t3\<close> whose email row names the SMS carrier and holds a
  blob that does not decrypt; and a tenant \<open>t4\<close> whose email row names the SMS
  carrier and has an empty blob.
\<close>

definition sample_db :: db where
  "sample_db =
     \<lparr>tenants = (\<lambda>t.
         if t = ''t1'' then Some \<lparr>tenant_id = ''t1'', is_demo = JNum 1\<rparr>
         else if t = ''t2'' then Some \<lparr>tenant_id = ''t2'', is_demo = JNum 0\<rparr>
         else if t = ''t3'' then Some \<lparr>tenant_id = ''t3'', is_demo = JNum 0\<rparr>
         else if t = ''t4'' then Some \<lparr>tenant_id = ''t4'', is_demo = JNum 0\<rparr>
         else None),
      tenant_channel_credentials_v2 = (\<lambda>k.
         if k = (''t1'', ''sms'') then
           Some \<lparr>provider = ''twilio'', credentials_json_encrypted = JStr ''c0ffee'',
                 provider_config_json = JNull\<rparr>
         else if k = (''t2'', ''sms'') then
           Some \<lparr>provider = ''twilio'', credentials_json_encrypted = JStr [],
                 provider_config_json = JNull\<rparr>
         else if k = (''t2'', ''email'') then
           Some \<lparr>provider = ''twilio'', credentials_json_encrypted = JStr ''c0ffee'',
                 provider_config_json = JNull\<rparr>
         else if k = (''t3'', ''email'') then
           Some \<lparr>provider = ''twilio'', credentials_json_encrypted = JStr ''zz'',
                 provider_config_json = JNull\<rparr>
         else if k = (''t4'', ''email'') then
           Some \<lparr>provider = ''twilio'', credentials_json_encrypted = JStr [],
                 provider_config_json = JNull\<rparr>
         else None)\<rparr>"

text \<open>A status callback of the SMS carrier, and a bounce wrapped in an SNS envelope.\<close>

definition sample_callback :: jsval where
  "sample_callback =
     JObj [(''MessageSid'', JStr ''CM123''), (''MessageStatus'', JStr ''delivered'')]"

definition sample_envelope :: jsval where
  "sample_envelope = JObj [(''Type'', JStr ''Notification''), (''Message'', JStr bounce_json)]"

text \<open>A simulated callback of the demo adapter that carries its own timestamp.\<close>

definition sample_demo_callback :: jsval where
  "sample_demo_callback =
     JObj [(''provider_message_id'', JStr ''demo-m1-1703081234567''),
           (''status'', JStr ''delivered''),
           (''timestamp'', JStr ''2023-12-20T14:07:18.000Z'')]"

text \<open>The same callback without a timestamp.\<close>

definition sample_demo_callback_untimed :: jsval where
  "sample_demo_callback_untimed =
     JObj [(''provider_message_id'', JStr ''demo-m1-1703081234567''),
           (''status'', JStr ''delivered'')]"

text \<open>A result without one of its fields.\<close>

fun without_field :: "string \<Rightarrow> jsval \<Rightarrow> jsval" where
  "without_field k (JObj fs) = JObj (filter (\<lambda>kv. fst kv \<noteq> k) fs)"
| "without_field k v = v"

section \<open>Properties\<close>

subsection \<open>The adapters never touch the ledger\<close>

lemma TwilioSmsProvider_send_try_ledger:
  "ledger (fst (TwilioSmsProvider_send_try E p msg w)) = ledger w"
  by (simp add: TwilioSmsProvider_send_try_def Let_def split: sum.splits)

lemma TwilioWhatsAppProvider_send_try_ledger:
  "ledger (fst (TwilioWhatsAppProvider_send_try E p msg w)) = ledger w"
  by (simp add: TwilioWhatsAppProvider_send_try_def Let_def split: sum.splits)

lemma SESEmailProvider_send_try_ledger:
  "ledger (fst (SESEmailProvider_send_try E p msg w)) = ledger w"
  by (simp add: SESEmailProvider_send_try_def Let_def split: sum.splits)

lemma TwilioSmsProvider_send_ledger:
  "ledger (fst (TwilioSmsProvider_send E p msg w)) = ledger w"
  using TwilioSmsProvider_send_try_ledger [of E p msg w]
  by (cases "TwilioSmsProvider_send_try E p msg w")
     (auto simp: TwilioSmsProvider_send_def Let_def split: sum.splits)

lemma TwilioWhatsAppProvider_send_ledger:
  "ledger (fst (TwilioWhatsAppProvider_send E p msg w)) = ledger w"
  using TwilioWhatsAppProvider_send_try_ledger [of E p msg w]
  by (cases "TwilioWhatsAppProvider_send_try E p msg w")
     (auto simp: TwilioWhatsAppProvider_send_def Let_def split: sum.splits)

lemma SESEmailProvider_send_ledger:
  "ledger (fst (SESEmailProvider_send E p msg w)) = ledger w"
  using SESEmailProvider_send_try_ledger [of E p msg w]
  by (cases "SESEmailProvider_send_try E p msg w")
     (auto simp: SESEmailProvider_send_def Let_def split: sum.splits)

lemma DemoProvider_send_ledger: "ledger (fst (DemoProvider_send E p msg w)) = ledger w"
  by (simp add: DemoProvider_send_def DemoProvider_send_try_def split: sum.splits)

text \<open>
  C1, as the code has it. No adapter holds a handle on the store, and no \<open>send\<close>
  writes a row of \<open>message_provider_mappings\<close>: whatever the adapter, the message and
  the outcome, the ledger when \<open>send\<close> returns is the ledger it was called with. The
  carrier's message id only travels back in the result.
\<close>

theorem send_leaves_ledger:
  "ledger (fst (send E p msg w)) = ledger w"
  by (cases "kind p")
     (simp_all add: send_def TwilioSmsProvider_send_ledger TwilioWhatsAppProvider_send_ledger
        SESEmailProvider_send_ledger DemoProvider_send_ledger)

text \<open>
  C1 as stated fails: the demo adapter, called with message \<open>m1\<close> on an empty
  ledger, returns \<open>success: true\<close> and the ledger is still empty.
\<close>

theorem send_success_without_ledger_row_counterexample:
  "send sample_env sample_demo sample_sms sample_world =
     (sample_world,
      Inr (JObj [(''success'', JBool True),
                 (''provider_message_id'', JStr ''demo-m1-1703081234567''),
                 (''status'', JStr ''sent''),
                 (''provider'', JStr ''demo''),
                 (''demo'', JBool True)]))
   \<and> ledger sample_world = []"
  by (simp add: send_def sample_demo_def DemoProvider_send_def DemoProvider_send_try_def
      sample_sms_def generateDemoMessageId_def sample_env_def number_text_def digit_def
      sample_world_def)

subsection \<open>What \<open>send\<close> does with a message that is not there\<close>

text \<open>
  C2 at its failing input. With \<open>undefined\<close> or \<open>null\<close> for the message, the
  destructuring in the \<open>try\<close> block throws and is caught, and then the \<open>catch\<close>
  block reads \<open>message.phone_number\<close> (\<open>message.to_email\<close> for email) to log
  it: that read throws again, outside any \<open>try\<close>, so \<open>send\<close> of the SMS, the
  WhatsApp and the email adapter rejects with a \<open>TypeError\<close> instead of returning
  \<open>{success: false, error, provider}\<close>.
\<close>

theorem send_absent_message_rejects:
  "snd (TwilioSmsProvider_send E p JUndefined w) =
     Inl (TypeError (''Cannot read properties of undefined (reading '' @ [CHR 39] @ ''phone_number'' @ [CHR 39] @ '')''))
   \<and> snd (TwilioSmsProvider_send E p JNull w) =
     Inl (TypeError (''Cannot read properties of null (reading '' @ [CHR 39] @ ''phone_number'' @ [CHR 39] @ '')''))
   \<and> snd (TwilioWhatsAppProvider_send E p JUndefined w) =
     Inl (TypeError (''Cannot read properties of undefined (reading '' @ [CHR 39] @ ''phone_number'' @ [CHR 39] @ '')''))
   \<and> snd (SESEmailProvider_send E p JUndefined w) =
     Inl (TypeError (''Cannot read properties of undefined (reading '' @ [CHR 39] @ ''to_email'' @ [CHR 39] @ '')''))"
  by (simp add: TwilioSmsProvider_send_def TwilioSmsProvider_send_try_def
      TwilioWhatsAppProvider_send_def TwilioWhatsAppProvider_send_try_def
      SESEmailProvider_send_def SESEmailProvider_send_try_def)

text \<open>
  With a message that is there, the read in the \<open>catch\<close> block cannot throw, and
  every \<open>send\<close> returns a value.
\<close>

lemma get_prop_present: "msg \<noteq> JUndefined \<Longrightarrow> msg \<noteq> JNull \<Longrightarrow> \<exists>v. get_prop msg k = Inr v"
  by (cases msg) simp_all

lemma send_returns_on_present_message:
  assumes "msg \<noteq> JUndefined" and "msg \<noteq> JNull"
  shows "\<exists>r. snd (send E p msg w) = Inr r"
proof -
  obtain a where a: "get_prop msg ''phone_number'' = Inr a"
    using get_prop_present [OF assms] by blast
  obtain b where b: "get_prop msg ''to_email'' = Inr b"
    using get_prop_present [OF assms] by blast
  show ?thesis
  proof (cases "kind p")
    case TwilioSms
    then show ?thesis
      by (cases "TwilioSmsProvider_send_try E p msg w")
         (auto simp: send_def TwilioSmsProvider_send_def a Let_def split: sum.splits)
  next
    case TwilioWhatsApp
    then show ?thesis
      by (cases "TwilioWhatsAppProvider_send_try E p msg w")
         (auto simp: send_def TwilioWhatsAppProvider_send_def a Let_def split: sum.splits)
  next
    case SESEmail
    then show ?thesis
      by (cases "SESEmailProvider_send_try E p msg w")
         (auto simp: send_def SESEmailProvider_send_def b Let_def split: sum.splits)
  next
    case Demo
    then show ?thesis
      by (cases "DemoProvider_send_try E p msg w")
         (auto simp: send_def DemoProvider_send_def split: sum.splits)
  qed
qed

subsection \<open>\<open>parseWebhook\<close> returns\<close>

lemma TwilioSmsProvider_parseWebhook_obj:
  "\<exists>fs. TwilioSmsProvider_parseWebhook E p body sg = Inr (JObj fs)"
  by (simp add: TwilioSmsProvider_parseWebhook_def Let_def split: sum.splits)
     (auto simp: TwilioSmsProvider_parseWebhook_try_def Let_def split: sum.splits if_splits)

lemma TwilioWhatsApp_parseWebhook_eq:
  "TwilioWhatsAppProvider_parseWebhook E p body sg = TwilioSmsProvider_parseWebhook E p body sg"
proof -
  obtain fs where "TwilioSmsProvider_parseWebhook E p body sg = Inr (JObj fs)"
    using TwilioSmsProvider_parseWebhook_obj by blast
  then show ?thesis
    by (simp add: TwilioWhatsAppProvider_parseWebhook_def)
qed

text \<open>
  C3. For every adapter, body and signature, \<open>parseWebhook\<close> returns a value. When
  its \<open>try\<close> block fails, whatever threw (the signature check, a missing id, a read
  of a body that is not there, the JSON parser, the status normalizer), the value
  returned has the thrown message in \<open>error\<close> and \<open>status: 'unknown'\<close>; when the
  block succeeds the value is the block's.
\<close>

theorem parseWebhook_never_throws:
  "\<exists>v. parseWebhook E p body sg = Inr v \<and>
     (case parseWebhook_try E p body sg of
        Inr r \<Rightarrow> v = r
      | Inl e \<Rightarrow> field v ''error'' = JStr (message e) \<and> field v ''status'' = JStr ''unknown'')"
proof (cases "kind p")
  case TwilioSms
  then show ?thesis
    by (simp add: parseWebhook_def parseWebhook_try_def TwilioSmsProvider_parseWebhook_def
        field_def Let_def split: sum.splits)
next
  case TwilioWhatsApp
  then show ?thesis
    by (simp add: parseWebhook_def parseWebhook_try_def TwilioWhatsApp_parseWebhook_eq
        TwilioSmsProvider_parseWebhook_def field_def Let_def split: sum.splits)
next
  case SESEmail
  then show ?thesis
    by (simp add: parseWebhook_def parseWebhook_try_def SESEmailProvider_parseWebhook_def
        field_def Let_def split: sum.splits)
next
  case Demo
  then show ?thesis
    by (simp add: parseWebhook_def parseWebhook_try_def DemoProvider_parseWebhook_def
        field_def Let_def split: sum.splits)
qed

text \<open>
  A callback with a forged signature is answered with the error and \<open>unknown\<close>,
  and so is a body that is not there.
\<close>

theorem parseWebhook_never_throws_witness:
  "parseWebhook sample_env sample_twilio sample_callback (JStr ''forged'') =
     Inr (JObj [(''error'', JStr ''Invalid webhook signature''), (''status'', JStr ''unknown'')])
   \<and> parseWebhook sample_env sample_ses JUndefined JUndefined =
     Inr (JObj [(''error'', JStr (''Cannot read properties of undefined (reading '' @ [CHR 39] @ ''Type'' @ [CHR 39] @ '')'')),
                (''status'', JStr ''unknown'')])"
proof -
  have a: "parseWebhook_try sample_env sample_twilio sample_callback (JStr ''forged'') =
             Inl (Error ''Invalid webhook signature'')"
    by (simp add: parseWebhook_try_def sample_twilio_def TwilioSmsProvider_parseWebhook_try_def
        verifyWebhookSignature_def sample_env_def twilio_creds_def js_or_def)
  have b: "parseWebhook sample_env sample_twilio sample_callback (JStr ''forged'') =
     Inr (JObj [(''error'', JStr ''Invalid webhook signature''), (''status'', JStr ''unknown'')])"
    by (simp add: parseWebhook_def sample_twilio_def TwilioSmsProvider_parseWebhook_def
        TwilioSmsProvider_parseWebhook_try_def
        verifyWebhookSignature_def sample_env_def twilio_creds_def js_or_def)
  have c: "parseWebhook sample_env sample_ses JUndefined JUndefined =
     Inr (JObj [(''error'', JStr (''Cannot read properties of undefined (reading '' @ [CHR 39] @ ''Type'' @ [CHR 39] @ '')'')),
                (''status'', JStr ''unknown'')])"
    by (simp add: parseWebhook_def sample_ses_def SESEmailProvider_parseWebhook_def
        SESEmailProvider_parseWebhook_try_def ses_unwrap_def)
  from parseWebhook_never_throws [of sample_env sample_twilio sample_callback "JStr ''forged''"] a
  have "\<exists>v. parseWebhook sample_env sample_twilio sample_callback (JStr ''forged'') = Inr v
          \<and> field v ''status'' = JStr ''unknown''"
    by auto
  with b c show ?thesis by simp
qed

subsection \<open>The sender of an SMS\<close>

text \<open>
  C5 at its failing input. The tenant has a messaging service configured and no phone
  number, and the message names a recipient and no sender. The check of
  \<open>fromNumber\<close> comes before the messaging service is looked at, so \<open>send\<close>
  answers \<open>No phone number configured for tenant\<close> and the carrier is never called,
  although the source goes on to prefer the messaging service over the number and to
  fail only when it has neither.
\<close>

theorem sms_pooled_sender_rejected:
  "TwilioSmsProvider_send E sample_twilio_pooled sample_sms w =
     (w, Inr (JObj [(''success'', JBool False),
                    (''error'', JStr ''No phone number configured for tenant''),
                    (''provider'', JStr ''twilio'')]))"
  by (simp add: TwilioSmsProvider_send_def TwilioSmsProvider_send_try_def sample_twilio_pooled_def
      sample_sms_def field_def Let_def logError_def)

subsection \<open>Email events\<close>

lemma ses_unwrap_envelope:
  "field body ''Type'' = JStr ''Notification'' \<Longrightarrow> truthy (field body ''Message'') \<Longrightarrow>
     ses_unwrap E body = JSON_parse E (field body ''Message'')"
  by (cases body) (simp_all add: ses_unwrap_def field_def)

lemma ses_event_status_normalized:
  "ses_event_status et \<in> set [''sent'', ''delivered'', ''failed'', ''read'', ''unknown'']"
  by (simp add: ses_event_status_def)

lemma ses_parseWebhook_of_event:
  assumes ns: "\<forall>s\<in>set [''sent'', ''delivered'', ''failed'', ''read'', ''unknown''].
                 normalizeStatus E (JStr s) = Inr (JStr s)"
    and ev: "ses_unwrap E body = Inr event"
    and mail: "truthy (field event ''mail'')"
    and mid: "truthy (field (field event ''mail'') ''messageId'')"
  shows "\<exists>ts. SESEmailProvider_parseWebhook E p body sg =
           Inr (JObj [(''provider_message_id'', field (field event ''mail'') ''messageId''),
                      (''status'', JStr (ses_event_status (field event ''eventType''))),
                      (''timestamp'', ts),
                      (''event_type'', field event ''eventType''),
                      (''raw'', event)])"
proof -
  from mail obtain m where m: "get_prop event ''mail'' = Inr m" and fm: "field event ''mail'' = m"
    by (cases event) (simp_all add: field_def)
  from ns ses_event_status_normalized [of "field event ''eventType''"]
  have "normalizeStatus E (JStr (ses_event_status (field event ''eventType''))) =
          Inr (JStr (ses_event_status (field event ''eventType'')))"
    by blast
  with ev m fm mail mid show ?thesis
    by (simp add: SESEmailProvider_parseWebhook_def SESEmailProvider_parseWebhook_try_def Let_def)
qed

lemma ses_parseWebhook_missing_id:
  assumes ev: "ses_unwrap E body = Inr event"
    and missing: "\<not> (truthy (field event ''mail'') \<and> truthy (field (field event ''mail'') ''messageId''))"
  shows "\<exists>m. SESEmailProvider_parseWebhook E p body sg =
           Inr (JObj [(''error'', JStr m), (''status'', JStr ''unknown'')])
         \<and> (event \<noteq> JUndefined \<and> event \<noteq> JNull \<longrightarrow> m = ''Invalid SES event structure'')"
proof (cases "get_prop event ''mail''")
  case (Inl e)
  then have "event = JUndefined \<or> event = JNull"
    by (cases event) simp_all
  with ev Inl show ?thesis
    by (auto simp: SESEmailProvider_parseWebhook_def SESEmailProvider_parseWebhook_try_def Let_def)
next
  case (Inr m)
  then have "field event ''mail'' = m"
    by (simp add: field_def)
  with ev Inr missing show ?thesis
    by (auto simp: SESEmailProvider_parseWebhook_def SESEmailProvider_parseWebhook_try_def Let_def)
qed

text \<open>
  C6. The email adapter's \<open>parseWebhook\<close> inspects the event inside the body: for
  a body of type \<open>Notification\<close> with a message, the event is what the message
  parses to; any other body is the event itself. When the event has a mail object with a
  message id, the result carries that id, the event type, and the status that the table
  gives: \<open>Send\<close> is sent, \<open>Delivery\<close> is delivered, \<open>Bounce\<close> and
  \<open>Complaint\<close> are failed, \<open>Open\<close> and \<open>Click\<close> are read, anything
  else is unknown. When the mail object or its message id is missing, the result is an
  error with status \<open>unknown\<close>. The status passes through the inherited
  \<open>normalizeStatus\<close>, which is assumed to keep the five normalized names.
\<close>

theorem ses_parseWebhook_status_mapping:
  assumes ns: "\<forall>s\<in>set [''sent'', ''delivered'', ''failed'', ''read'', ''unknown''].
                 normalizeStatus E (JStr s) = Inr (JStr s)"
  shows "(field body ''Type'' = JStr ''Notification'' \<and> truthy (field body ''Message'') \<longrightarrow>
            ses_unwrap E body = JSON_parse E (field body ''Message''))
       \<and> (\<forall>ty. get_prop body ''Type'' = Inr ty
                 \<and> \<not> (ty = JStr ''Notification'' \<and> truthy (field body ''Message'')) \<longrightarrow>
            ses_unwrap E body = Inr body)
       \<and> (\<forall>event. ses_unwrap E body = Inr event \<longrightarrow>
            (if truthy (field event ''mail'') \<and> truthy (field (field event ''mail'') ''messageId'')
             then \<exists>r. SESEmailProvider_parseWebhook E p body sg = Inr r
                    \<and> field r ''provider_message_id'' = field (field event ''mail'') ''messageId''
                    \<and> field r ''event_type'' = field event ''eventType''
                    \<and> field r ''status'' =
                        (let eventType = field event ''eventType''
                         in if eventType = JStr ''Send'' then JStr ''sent''
                            else if eventType = JStr ''Delivery'' then JStr ''delivered''
                            else if eventType = JStr ''Bounce'' then JStr ''failed''
                            else if eventType = JStr ''Complaint'' then JStr ''failed''
                            else if eventType = JStr ''Open'' then JStr ''read''
                            else if eventType = JStr ''Click'' then JStr ''read''
                            else JStr ''unknown'')
             else \<exists>m. SESEmailProvider_parseWebhook E p body sg =
                         Inr (JObj [(''error'', JStr m), (''status'', JStr ''unknown'')])))"
proof (intro conjI allI impI)
  assume "field body ''Type'' = JStr ''Notification'' \<and> truthy (field body ''Message'')"
  then show "ses_unwrap E body = JSON_parse E (field body ''Message'')"
    by (simp add: ses_unwrap_envelope)
next
  fix ty
  assume "get_prop body ''Type'' = Inr ty
            \<and> \<not> (ty = JStr ''Notification'' \<and> truthy (field body ''Message''))"
  then show "ses_unwrap E body = Inr body"
    by (auto simp: ses_unwrap_def)
next
  fix event
  assume ev: "ses_unwrap E body = Inr event"
  show "if truthy (field event ''mail'') \<and> truthy (field (field event ''mail'') ''messageId'')
        then \<exists>r. SESEmailProvider_parseWebhook E p body sg = Inr r
               \<and> field r ''provider_message_id'' = field (field event ''mail'') ''messageId''
               \<and> field r ''event_type'' = field event ''eventType''
               \<and> field r ''status'' =
                   (let eventType = field event ''eventType''
                    in if eventType = JStr ''Send'' then JStr ''sent''
                       else if eventType = JStr ''Delivery'' then JStr ''delivered''
                       else if eventType = JStr ''Bounce'' then JStr ''failed''
                       else if eventType = JStr ''Complaint'' then JStr ''failed''
                       else if eventType = JStr ''Open'' then JStr ''read''
                       else if eventType = JStr ''Click'' then JStr ''read''
                       else JStr ''unknown'')
        else \<exists>m. SESEmailProvider_parseWebhook E p body sg =
                    Inr (JObj [(''error'', JStr m), (''status'', JStr ''unknown'')])"
  proof (cases "truthy (field event ''mail'') \<and> truthy (field (field event ''mail'') ''messageId'')")
    case True
    with ses_parseWebhook_of_event [OF ns ev, of p sg] obtain ts where
      "SESEmailProvider_parseWebhook E p body sg =
         Inr (JObj [(''provider_message_id'', field (field event ''mail'') ''messageId''),
                    (''status'', JStr (ses_event_status (field event ''eventType''))),
                    (''timestamp'', ts),
                    (''event_type'', field event ''eventType''),
                    (''raw'', event)])"
      by blast
    with True show ?thesis
      by (simp add: field_def ses_event_status_def Let_def)
  next
    case False
    with ses_parseWebhook_missing_id [OF ev, of p sg] show ?thesis
      by auto
  qed
qed

text \<open>
  The spec's scenario: a bounce for message \<open>E1\<close> inside an SNS envelope, with the
  spec's \<open>normalizeStatus\<close>.
\<close>

theorem ses_parseWebhook_status_mapping_witness:
  "normalizeStatus sample_env (JStr ''sent'') = Inr (JStr ''sent'')
   \<and> normalizeStatus sample_env (JStr ''delivered'') = Inr (JStr ''delivered'')
   \<and> normalizeStatus sample_env (JStr ''failed'') = Inr (JStr ''failed'')
   \<and> normalizeStatus sample_env (JStr ''read'') = Inr (JStr ''read'')
   \<and> normalizeStatus sample_env (JStr ''unknown'') = Inr (JStr ''unknown'')
   \<and> ses_unwrap sample_env sample_envelope = Inr bounce_event
   \<and> SESEmailProvider_parseWebhook sample_env sample_ses sample_envelope JUndefined =
       Inr (JObj [(''provider_message_id'', JStr ''E1''),
                  (''status'', JStr ''failed''),
                  (''timestamp'', JDate (JStr ''2023-12-20T14:07:14.567Z'')),
                  (''event_type'', JStr ''Bounce''),
                  (''raw'', bounce_event)])"
proof -
  have ns: "\<forall>s\<in>set [''sent'', ''delivered'', ''failed'', ''read'', ''unknown''].
              normalizeStatus sample_env (JStr s) = Inr (JStr s)"
    by (simp add: sample_env_def spec_normalizeStatus_def)
  have ev: "ses_unwrap sample_env sample_envelope = Inr bounce_event"
    by (simp add: ses_unwrap_def sample_envelope_def field_def sample_env_def
        sample_JSON_parse_def bounce_json_def)
  have res: "SESEmailProvider_parseWebhook sample_env sample_ses sample_envelope JUndefined =
     Inr (JObj [(''provider_message_id'', JStr ''E1''),
                (''status'', JStr ''failed''),
                (''timestamp'', JDate (JStr ''2023-12-20T14:07:14.567Z'')),
                (''event_type'', JStr ''Bounce''),
                (''raw'', bounce_event)])"
    using ev
    by (simp add: SESEmailProvider_parseWebhook_def SESEmailProvider_parseWebhook_try_def
        bounce_event_def field_def opt_chain_def js_or_def ses_event_status_def Let_def
        sample_env_def spec_normalizeStatus_def logError_def)
  have present: "truthy (field bounce_event ''mail'')
                 \<and> truthy (field (field bounce_event ''mail'') ''messageId'')"
    and et: "field bounce_event ''eventType'' = JStr ''Bounce''"
    by (simp_all add: bounce_event_def field_def)
  from ses_parseWebhook_status_mapping [OF ns, of sample_envelope sample_ses JUndefined] ev present
  have "\<exists>r. SESEmailProvider_parseWebhook sample_env sample_ses sample_envelope JUndefined = Inr r
          \<and> field r ''status'' = JStr ''failed''"
    by (auto simp: et Let_def)
  with ns ev res show ?thesis by simp
qed

subsection \<open>Demo tenants\<close>

text \<open>
  C4. For a tenant whose row has \<open>is_demo\<close> set, \<open>getProvider\<close> returns a
  Demo adapter for the tenant and the channel asked for, whatever the channel and whatever
  the credential table holds: after the tenant query it only runs the Demo constructor, so
  it neither queries the credential table nor calls \<open>decryptCredentials\<close>.
\<close>

theorem getProvider_demo_tenant:
  assumes "tenants d tid = Some t" and "truthy (is_demo t)"
  shows "getProvider E d tid ch =
           ([QueryTenant tid, Construct Demo tid ch JUndefined JUndefined],
            Inr \<lparr>kind = Demo, tenantId = tid, channel = ch, credentials = JObj [],
                 config = JObj []\<rparr>)"
  using assms by (simp add: getProvider_def DemoProvider_new_def default_obj_def)

text \<open>
  The demo tenant \<open>t1\<close> has a stored carrier row for SMS and still resolves to the
  Demo adapter.
\<close>

theorem getProvider_demo_tenant_witness:
  "tenant_channel_credentials_v2 sample_db (''t1'', ''sms'') =
     Some \<lparr>provider = ''twilio'', credentials_json_encrypted = JStr ''c0ffee'',
           provider_config_json = JNull\<rparr>
   \<and> getProvider sample_env sample_db ''t1'' ''sms'' =
       ([QueryTenant ''t1'', Construct Demo ''t1'' ''sms'' JUndefined JUndefined],
        Inr \<lparr>kind = Demo, tenantId = ''t1'', channel = ''sms'', credentials = JObj [],
             config = JObj []\<rparr>)"
  using getProvider_demo_tenant
    [of sample_db "''t1''" "\<lparr>tenant_id = ''t1'', is_demo = JNum 1\<rparr>" sample_env "''sms''"]
  by (simp add: sample_db_def)

subsection \<open>Decrypting credentials\<close>

text \<open>
  C7. For a blob that is not empty, \<open>decryptCredentials\<close> deciphers it with the
  first 24 bytes of the SHA-256 digest of the configured key string and sixteen zero bytes
  as the initialization vector, and parses the plain text as JSON. The only error it
  throws is \<open>Invalid credentials - decryption failed\<close>; it returns a value exactly
  when the cipher gives a plain text and that text parses, and the value is the parsed
  one; and when the cipher fails or the text does not parse it throws that error.
\<close>

theorem decryptCredentials_typed_failure:
  assumes "truthy blob"
  shows "(\<forall>e. decryptCredentials E blob = Inl e \<longrightarrow>
            e = Error ''Invalid credentials - decryption failed'')
       \<and> (\<forall>v. decryptCredentials E blob = Inr v \<longleftrightarrow>
            (\<exists>plain. decipher E (take 24 (sha256 E (encryptionKey E))) (replicate 16 0) blob = Inr plain
                    \<and> JSON_parse E (JStr plain) = Inr v))
       \<and> ((\<forall>plain. decipher E (take 24 (sha256 E (encryptionKey E))) (replicate 16 0) blob = Inr plain
                    \<longrightarrow> (\<exists>e. JSON_parse E (JStr plain) = Inl e))
            \<longrightarrow> decryptCredentials E blob = Inl (Error ''Invalid credentials - decryption failed''))"
  using assms
  by (auto simp: decryptCredentials_def decryption_failed_def Let_def split: sum.splits)

text \<open>
  The blob \<open>c0ffee\<close> decrypts to the carrier's credentials; the blob \<open>zz\<close>
  does not decrypt and gives the error.
\<close>

theorem decryptCredentials_typed_failure_witness:
  "truthy (JStr ''c0ffee'')
   \<and> decryptCredentials sample_env (JStr ''c0ffee'') = Inr twilio_creds
   \<and> decryptCredentials sample_env (JStr ''zz'') = Inl (Error ''Invalid credentials - decryption failed'')"
proof -
  have t1: "truthy (JStr ''c0ffee'')" and t2: "truthy (JStr ''zz'')"
    by simp_all
  have "\<exists>plain. decipher sample_env (take 24 (sha256 sample_env (encryptionKey sample_env)))
            (replicate 16 0) (JStr ''c0ffee'') = Inr plain
          \<and> JSON_parse sample_env (JStr plain) = Inr twilio_creds"
    by (simp add: sample_env_def sample_JSON_parse_def twilio_creds_json_def bounce_json_def)
  with decryptCredentials_typed_failure [OF t1, of sample_env]
  have ok: "decryptCredentials sample_env (JStr ''c0ffee'') = Inr twilio_creds"
    by blast
  have "\<forall>plain. decipher sample_env (take 24 (sha256 sample_env (encryptionKey sample_env)))
            (replicate 16 0) (JStr ''zz'') = Inr plain
          \<longrightarrow> (\<exists>e. JSON_parse sample_env (JStr plain) = Inl e)"
    by (simp add: sample_env_def)
  with decryptCredentials_typed_failure [OF t2, of sample_env]
  have bad: "decryptCredentials sample_env (JStr ''zz'') =
               Inl (Error ''Invalid credentials - decryption failed'')"
    by blast
  from t1 ok bad show ?thesis by blast
qed

subsection \<open>A carrier that does not support the channel\<close>

text \<open>
  C8, as the code has it. For a tenant that is not a demo tenant and whose row for the
  channel \<open>email\<close> names the provider \<open>twilio\<close>, \<open>getProvider\<close> fails
  and constructs no adapter: it queries the tenant and the row, calls
  \<open>decryptCredentials\<close> and parses the configuration, and throws the error of the
  first of these two that fails; when both succeed it throws
  \<open>Twilio does not support channel: email\<close>.
\<close>

theorem getProvider_twilio_email:
  assumes "tenants d tid = Some t" and "\<not> truthy (is_demo t)"
    and "tenant_channel_credentials_v2 d (tid, ''email'') = Some c"
    and "provider c = ''twilio''"
  shows "getProvider E d tid ''email'' =
           ([QueryTenant tid, QueryCredentials tid ''email'',
             Decrypt (credentials_json_encrypted c)],
            Inl (case decryptCredentials E (credentials_json_encrypted c) of
                   Inl e \<Rightarrow> e
                 | Inr decrypted \<Rightarrow>
                     (case (if truthy (provider_config_json c)
                            then JSON_parse E (provider_config_json c)
                            else Inr (JObj [])) of
                        Inl e \<Rightarrow> e
                      | Inr cfg \<Rightarrow> Error ''Twilio does not support channel: email'')))"
  using assms by (simp add: getProvider_def Let_def split: sum.splits)

text \<open>Tenant \<open>t2\<close>: the blob decrypts, and the pairing is refused.\<close>

theorem getProvider_twilio_email_witness:
  "getProvider sample_env sample_db ''t2'' ''email'' =
     ([QueryTenant ''t2'', QueryCredentials ''t2'' ''email'', Decrypt (JStr ''c0ffee'')],
      Inl (Error ''Twilio does not support channel: email''))"
  using getProvider_twilio_email
    [of sample_db "''t2''" "\<lparr>tenant_id = ''t2'', is_demo = JNum 0\<rparr>"
        "\<lparr>provider = ''twilio'', credentials_json_encrypted = JStr ''c0ffee'',
          provider_config_json = JNull\<rparr>" sample_env]
  by (simp add: sample_db_def decryptCredentials_def sample_env_def sample_JSON_parse_def
      twilio_creds_json_def bounce_json_def)

text \<open>
  C8 as stated fails: for tenant \<open>t3\<close> the blob of the row does not decrypt, and
  \<open>getProvider\<close> fails with the decryption error, not with the refusal of the
  pairing.
\<close>

theorem getProvider_twilio_email_counterexample:
  "getProvider sample_env sample_db ''t3'' ''email'' =
     ([QueryTenant ''t3'', QueryCredentials ''t3'' ''email'', Decrypt (JStr ''zz'')],
      Inl (Error ''Invalid credentials - decryption failed''))
   \<and> Error ''Invalid credentials - decryption failed'' \<noteq>
       Error ''Twilio does not support channel: email''"
  by (simp add: getProvider_def sample_db_def decryptCredentials_def sample_env_def
      decryption_failed_def)

subsection \<open>Parsing the same callback twice\<close>

lemma TwilioSmsProvider_parseWebhook_clock:
  "map_sum id (without_field ''timestamp'') (TwilioSmsProvider_parseWebhook (E\<lparr>clock := ta\<rparr>) p body sg) =
   map_sum id (without_field ''timestamp'') (TwilioSmsProvider_parseWebhook (E\<lparr>clock := tb\<rparr>) p body sg)"
  by (simp add: TwilioSmsProvider_parseWebhook_def TwilioSmsProvider_parseWebhook_try_def
      verifyWebhookSignature_def Let_def split: sum.splits)

lemma ses_unwrap_clock: "ses_unwrap (E\<lparr>clock := t\<rparr>) body = ses_unwrap E body"
  by (simp add: ses_unwrap_def split: sum.splits)

lemma SESEmailProvider_parseWebhook_clock:
  "map_sum id (without_field ''timestamp'') (SESEmailProvider_parseWebhook (E\<lparr>clock := ta\<rparr>) p body sg) =
   map_sum id (without_field ''timestamp'') (SESEmailProvider_parseWebhook (E\<lparr>clock := tb\<rparr>) p body sg)"
  by (simp add: SESEmailProvider_parseWebhook_def SESEmailProvider_parseWebhook_try_def
      ses_unwrap_clock Let_def split: sum.splits)

lemma DemoProvider_parseWebhook_clock:
  "map_sum id (without_field ''timestamp'') (DemoProvider_parseWebhook (E\<lparr>clock := ta\<rparr>) p body sg) =
   map_sum id (without_field ''timestamp'') (DemoProvider_parseWebhook (E\<lparr>clock := tb\<rparr>) p body sg)"
  by (simp add: DemoProvider_parseWebhook_def DemoProvider_parseWebhook_try_def
      Let_def split: sum.splits)

lemma DemoProvider_parseWebhook_own_timestamp:
  "truthy (field body ''timestamp'') \<Longrightarrow>
     DemoProvider_parseWebhook (E\<lparr>clock := ta\<rparr>) p body sg =
     DemoProvider_parseWebhook (E\<lparr>clock := tb\<rparr>) p body sg"
  by (simp add: DemoProvider_parseWebhook_def DemoProvider_parseWebhook_try_def js_or_def
      Let_def split: sum.splits)

lemma SESEmailProvider_parseWebhook_own_timestamp:
  assumes "ses_unwrap E body = Inr event"
    and "truthy (opt_chain (field event ''delivery'') ''timestamp'')
       \<or> truthy (opt_chain (field event ''bounce'') ''timestamp'')
       \<or> truthy (opt_chain (field event ''complaint'') ''timestamp'')"
  shows "SESEmailProvider_parseWebhook (E\<lparr>clock := ta\<rparr>) p body sg =
         SESEmailProvider_parseWebhook (E\<lparr>clock := tb\<rparr>) p body sg"
  using assms
  by (auto simp: SESEmailProvider_parseWebhook_def SESEmailProvider_parseWebhook_try_def
      ses_unwrap_clock js_or_def Let_def split: sum.splits)

lemma TwilioSmsProvider_parseWebhook_try_stamp:
  assumes "TwilioSmsProvider_parseWebhook_try (E\<lparr>clock := ta\<rparr>) p body sg = Inr r"
  shows "\<exists>m st. r = JObj [(''provider_message_id'', m), (''status'', st),
                          (''timestamp'', JDate (JNum ta)), (''raw'', body)]
               \<and> TwilioSmsProvider_parseWebhook_try (E\<lparr>clock := tb\<rparr>) p body sg =
                   Inr (JObj [(''provider_message_id'', m), (''status'', st),
                              (''timestamp'', JDate (JNum tb)), (''raw'', body)])"
  using assms
  by (auto simp: TwilioSmsProvider_parseWebhook_try_def verifyWebhookSignature_def Let_def
      split: sum.splits if_splits)

lemma DemoProvider_parseWebhook_try_stamp:
  assumes "DemoProvider_parseWebhook_try (E\<lparr>clock := ta\<rparr>) p body sg = Inr r"
    and "\<not> truthy (field body ''timestamp'')"
  shows "\<exists>m st. r = JObj [(''provider_message_id'', m), (''status'', st),
                          (''timestamp'', JDate (JDate (JNum ta))), (''demo'', JBool True)]
               \<and> DemoProvider_parseWebhook_try (E\<lparr>clock := tb\<rparr>) p body sg =
                   Inr (JObj [(''provider_message_id'', m), (''status'', st),
                              (''timestamp'', JDate (JDate (JNum tb))), (''demo'', JBool True)])"
  using assms
  by (auto simp: DemoProvider_parseWebhook_try_def js_or_def Let_def
      split: sum.splits if_splits)

lemma SESEmailProvider_parseWebhook_try_stamp:
  assumes "SESEmailProvider_parseWebhook_try (E\<lparr>clock := ta\<rparr>) p body sg = Inr r"
    and "ses_unwrap E body = Inr event"
    and "\<not> truthy (opt_chain (field event ''delivery'') ''timestamp'')"
    and "\<not> truthy (opt_chain (field event ''bounce'') ''timestamp'')"
    and "\<not> truthy (opt_chain (field event ''complaint'') ''timestamp'')"
  shows "\<exists>m st et. r = JObj [(''provider_message_id'', m), (''status'', st),
                          (''timestamp'', JDate (JStr (toISOString E ta))),
                          (''event_type'', et), (''raw'', event)]
               \<and> SESEmailProvider_parseWebhook_try (E\<lparr>clock := tb\<rparr>) p body sg =
                   Inr (JObj [(''provider_message_id'', m), (''status'', st),
                              (''timestamp'', JDate (JStr (toISOString E tb))),
                              (''event_type'', et), (''raw'', event)])"
  using assms
  by (auto simp: SESEmailProvider_parseWebhook_try_def ses_unwrap_clock js_or_def Let_def
      split: sum.splits if_splits)

lemma parseWebhook_of_try:
  "parseWebhook_try E p body sg = Inr r \<Longrightarrow> parseWebhook E p body sg = Inr r"
  by (cases "kind p")
     (simp_all add: parseWebhook_def parseWebhook_try_def TwilioWhatsApp_parseWebhook_eq
        TwilioSmsProvider_parseWebhook_def SESEmailProvider_parseWebhook_def
        DemoProvider_parseWebhook_def)


lemma parseWebhook_try_clock_stamp:
  assumes t: "parseWebhook_try (E\<lparr>clock := ta\<rparr>) p body sg = Inr r"
    and k: "kind p = TwilioSms \<or> kind p = TwilioWhatsApp
            \<or> (kind p = Demo \<and> \<not> truthy (field body ''timestamp''))"
  shows "field r ''timestamp'' = (if kind p = Demo then JDate (JDate (JNum ta)) else JDate (JNum ta))
       \<and> (ta \<noteq> tb \<longrightarrow> parseWebhook_try (E\<lparr>clock := tb\<rparr>) p body sg \<noteq> Inr r
                        \<and> (\<exists>r'. parseWebhook_try (E\<lparr>clock := tb\<rparr>) p body sg = Inr r'))"
proof (cases "kind p")
  case TwilioSms
  with t have "TwilioSmsProvider_parseWebhook_try (E\<lparr>clock := ta\<rparr>) p body sg = Inr r"
    by (simp add: parseWebhook_try_def)
  from TwilioSmsProvider_parseWebhook_try_stamp [OF this, of tb] TwilioSms show ?thesis
    by (auto simp: parseWebhook_try_def field_def)
next
  case TwilioWhatsApp
  with t have "TwilioSmsProvider_parseWebhook_try (E\<lparr>clock := ta\<rparr>) p body sg = Inr r"
    by (simp add: parseWebhook_try_def)
  from TwilioSmsProvider_parseWebhook_try_stamp [OF this, of tb] TwilioWhatsApp show ?thesis
    by (auto simp: parseWebhook_try_def field_def)
next
  case SESEmail
  with k show ?thesis by simp
next
  case Demo
  with k have nt: "\<not> truthy (field body ''timestamp'')" by simp
  from t Demo have "DemoProvider_parseWebhook_try (E\<lparr>clock := ta\<rparr>) p body sg = Inr r"
    by (simp add: parseWebhook_try_def)
  from DemoProvider_parseWebhook_try_stamp [OF this nt, of tb] Demo show ?thesis
    by (auto simp: parseWebhook_try_def field_def)
qed

lemma parseWebhook_try_iso_stamp:
  assumes t: "parseWebhook_try (E\<lparr>clock := ta\<rparr>) p body sg = Inr r"
    and k: "kind p = SESEmail"
    and ev: "ses_unwrap E body = Inr event"
    and none: "\<not> truthy (opt_chain (field event ''delivery'') ''timestamp'')"
      "\<not> truthy (opt_chain (field event ''bounce'') ''timestamp'')"
      "\<not> truthy (opt_chain (field event ''complaint'') ''timestamp'')"
  shows "field r ''timestamp'' = JDate (JStr (toISOString E ta))
       \<and> (toISOString E ta \<noteq> toISOString E tb \<longrightarrow>
             parseWebhook_try (E\<lparr>clock := tb\<rparr>) p body sg \<noteq> Inr r
             \<and> (\<exists>r'. parseWebhook_try (E\<lparr>clock := tb\<rparr>) p body sg = Inr r'))"
proof -
  from t k have "SESEmailProvider_parseWebhook_try (E\<lparr>clock := ta\<rparr>) p body sg = Inr r"
    by (simp add: parseWebhook_try_def)
  from SESEmailProvider_parseWebhook_try_stamp [OF this ev none, of tb] k show ?thesis
    by (auto simp: parseWebhook_try_def field_def)
qed

lemma parseWebhook_differs:
  assumes "parseWebhook_try Ea p body sg = Inr r"
    and "parseWebhook_try Eb p body sg \<noteq> Inr r"
    and "\<exists>r'. parseWebhook_try Eb p body sg = Inr r'"
  shows "parseWebhook Ea p body sg \<noteq> parseWebhook Eb p body sg"
  using assms parseWebhook_of_try by fastforce


text \<open>
  C9, as the code has it. \<open>parseWebhook\<close> assigns to no field of the adapter, and
  reads one thing besides its arguments: the clock. Two calls with the same body and
  signature, at clock readings \<open>ta\<close> and \<open>tb\<close>, give results that agree in
  every field but \<open>timestamp\<close>. The timestamps agree as well when the payload
  carries its own: a demo callback with a \<open>timestamp\<close>, or an email event with a
  delivery, bounce or complaint timestamp. Otherwise a parse that succeeds stamps its
  result with the clock: the SMS and WhatsApp adapters always, with \<open>new Date()\<close>;
  the demo adapter with a \<open>Date\<close> built from \<open>new Date()\<close>; the email
  adapter with the ISO text of \<open>new Date()\<close>. Then the two results differ as soon
  as the two readings (for email, their ISO texts) differ.
\<close>

theorem parseWebhook_repeatable_up_to_timestamp:
  "map_sum id (without_field ''timestamp'') (parseWebhook (E\<lparr>clock := ta\<rparr>) p body sg) =
   map_sum id (without_field ''timestamp'') (parseWebhook (E\<lparr>clock := tb\<rparr>) p body sg)
   \<and> (kind p = Demo \<and> truthy (field body ''timestamp'') \<longrightarrow>
        parseWebhook (E\<lparr>clock := ta\<rparr>) p body sg = parseWebhook (E\<lparr>clock := tb\<rparr>) p body sg)
   \<and> (\<forall>event. kind p = SESEmail \<and> ses_unwrap E body = Inr event
          \<and> (truthy (opt_chain (field event ''delivery'') ''timestamp'')
             \<or> truthy (opt_chain (field event ''bounce'') ''timestamp'')
             \<or> truthy (opt_chain (field event ''complaint'') ''timestamp'')) \<longrightarrow>
        parseWebhook (E\<lparr>clock := ta\<rparr>) p body sg = parseWebhook (E\<lparr>clock := tb\<rparr>) p body sg)
   \<and> (\<forall>r. parseWebhook_try (E\<lparr>clock := ta\<rparr>) p body sg = Inr r
          \<and> (kind p = TwilioSms \<or> kind p = TwilioWhatsApp
             \<or> (kind p = Demo \<and> \<not> truthy (field body ''timestamp''))) \<longrightarrow>
        parseWebhook (E\<lparr>clock := ta\<rparr>) p body sg = Inr r
        \<and> field r ''timestamp'' =
            (if kind p = Demo then JDate (JDate (JNum ta)) else JDate (JNum ta))
        \<and> (ta \<noteq> tb \<longrightarrow>
             parseWebhook (E\<lparr>clock := ta\<rparr>) p body sg \<noteq> parseWebhook (E\<lparr>clock := tb\<rparr>) p body sg))
   \<and> (\<forall>r event. parseWebhook_try (E\<lparr>clock := ta\<rparr>) p body sg = Inr r
          \<and> kind p = SESEmail \<and> ses_unwrap E body = Inr event
          \<and> \<not> truthy (opt_chain (field event ''delivery'') ''timestamp'')
          \<and> \<not> truthy (opt_chain (field event ''bounce'') ''timestamp'')
          \<and> \<not> truthy (opt_chain (field event ''complaint'') ''timestamp'') \<longrightarrow>
        parseWebhook (E\<lparr>clock := ta\<rparr>) p body sg = Inr r
        \<and> field r ''timestamp'' = JDate (JStr (toISOString E ta))
        \<and> (toISOString E ta \<noteq> toISOString E tb \<longrightarrow>
             parseWebhook (E\<lparr>clock := ta\<rparr>) p body sg \<noteq> parseWebhook (E\<lparr>clock := tb\<rparr>) p body sg))"
proof (intro conjI allI impI)
  show "map_sum id (without_field ''timestamp'') (parseWebhook (E\<lparr>clock := ta\<rparr>) p body sg) =
        map_sum id (without_field ''timestamp'') (parseWebhook (E\<lparr>clock := tb\<rparr>) p body sg)"
    by (cases "kind p")
       (simp_all add: parseWebhook_def TwilioWhatsApp_parseWebhook_eq
          TwilioSmsProvider_parseWebhook_clock SESEmailProvider_parseWebhook_clock
          DemoProvider_parseWebhook_clock)
next
  assume "kind p = Demo \<and> truthy (field body ''timestamp'')"
  then show "parseWebhook (E\<lparr>clock := ta\<rparr>) p body sg = parseWebhook (E\<lparr>clock := tb\<rparr>) p body sg"
    by (simp add: parseWebhook_def DemoProvider_parseWebhook_own_timestamp)
next
  fix event
  assume a: "kind p = SESEmail \<and> ses_unwrap E body = Inr event
          \<and> (truthy (opt_chain (field event ''delivery'') ''timestamp'')
             \<or> truthy (opt_chain (field event ''bounce'') ''timestamp'')
             \<or> truthy (opt_chain (field event ''complaint'') ''timestamp''))"
  then have "SESEmailProvider_parseWebhook (E\<lparr>clock := ta\<rparr>) p body sg =
             SESEmailProvider_parseWebhook (E\<lparr>clock := tb\<rparr>) p body sg"
    using SESEmailProvider_parseWebhook_own_timestamp [of E body event] by blast
  with a show "parseWebhook (E\<lparr>clock := ta\<rparr>) p body sg = parseWebhook (E\<lparr>clock := tb\<rparr>) p body sg"
    by (simp add: parseWebhook_def)
next
  fix r
  assume a: "parseWebhook_try (E\<lparr>clock := ta\<rparr>) p body sg = Inr r
          \<and> (kind p = TwilioSms \<or> kind p = TwilioWhatsApp
             \<or> (kind p = Demo \<and> \<not> truthy (field body ''timestamp'')))"
  then have t: "parseWebhook_try (E\<lparr>clock := ta\<rparr>) p body sg = Inr r" by blast
  from a have k: "kind p = TwilioSms \<or> kind p = TwilioWhatsApp
             \<or> (kind p = Demo \<and> \<not> truthy (field body ''timestamp''))" by blast
  show "parseWebhook (E\<lparr>clock := ta\<rparr>) p body sg = Inr r"
    using t by (rule parseWebhook_of_try)
  show "field r ''timestamp'' = (if kind p = Demo then JDate (JDate (JNum ta)) else JDate (JNum ta))"
    using parseWebhook_try_clock_stamp [OF t k] by blast
  assume "ta \<noteq> tb"
  with parseWebhook_try_clock_stamp [OF t k, of tb] parseWebhook_differs [OF t]
  show "parseWebhook (E\<lparr>clock := ta\<rparr>) p body sg \<noteq> parseWebhook (E\<lparr>clock := tb\<rparr>) p body sg"
    by blast
next
  fix r event
  assume a: "parseWebhook_try (E\<lparr>clock := ta\<rparr>) p body sg = Inr r
          \<and> kind p = SESEmail \<and> ses_unwrap E body = Inr event
          \<and> \<not> truthy (opt_chain (field event ''delivery'') ''timestamp'')
          \<and> \<not> truthy (opt_chain (field event ''bounce'') ''timestamp'')
          \<and> \<not> truthy (opt_chain (field event ''complaint'') ''timestamp'')"
  then have t: "parseWebhook_try (E\<lparr>clock := ta\<rparr>) p body sg = Inr r" by blast
  note st = parseWebhook_try_iso_stamp [OF t, of event tb]
  show "parseWebhook (E\<lparr>clock := ta\<rparr>) p body sg = Inr r"
    using t by (rule parseWebhook_of_try)
  show "field r ''timestamp'' = JDate (JStr (toISOString E ta))"
    using st a by blast
  assume "toISOString E ta \<noteq> toISOString E tb"
  with st a parseWebhook_differs [OF t]
  show "parseWebhook (E\<lparr>clock := ta\<rparr>) p body sg \<noteq> parseWebhook (E\<lparr>clock := tb\<rparr>) p body sg"
    by blast
qed

text \<open>
  A demo callback that carries its timestamp parses to the same value at both readings;
  the same callback without the timestamp parses to two different values.
\<close>

theorem parseWebhook_repeatable_up_to_timestamp_witness:
  "kind sample_demo = Demo
   \<and> truthy (field sample_demo_callback ''timestamp'')
   \<and> parseWebhook (sample_env\<lparr>clock := 1000\<rparr>) sample_demo sample_demo_callback JUndefined =
       parseWebhook (sample_env\<lparr>clock := 2000\<rparr>) sample_demo sample_demo_callback JUndefined
   \<and> parseWebhook (sample_env\<lparr>clock := 2000\<rparr>) sample_demo sample_demo_callback JUndefined =
       Inr (JObj [(''provider_message_id'', JStr ''demo-m1-1703081234567''),
                  (''status'', JStr ''delivered''),
                  (''timestamp'', JDate (JStr ''2023-12-20T14:07:18.000Z'')),
                  (''demo'', JBool True)])
   \<and> \<not> truthy (field sample_demo_callback_untimed ''timestamp'')
   \<and> parseWebhook_try (sample_env\<lparr>clock := 1000\<rparr>) sample_demo sample_demo_callback_untimed JUndefined =
       Inr (JObj [(''provider_message_id'', JStr ''demo-m1-1703081234567''),
                  (''status'', JStr ''delivered''),
                  (''timestamp'', JDate (JDate (JNum 1000))),
                  (''demo'', JBool True)])
   \<and> parseWebhook (sample_env\<lparr>clock := 1000\<rparr>) sample_demo sample_demo_callback_untimed JUndefined \<noteq>
       parseWebhook (sample_env\<lparr>clock := 2000\<rparr>) sample_demo sample_demo_callback_untimed JUndefined"
proof -
  have k: "kind sample_demo = Demo"
    by (simp add: sample_demo_def)
  have t: "truthy (field sample_demo_callback ''timestamp'')"
    by (simp add: sample_demo_callback_def field_def)
  from parseWebhook_repeatable_up_to_timestamp
         [where E = sample_env and ta = 1000 and tb = 2000 and p = sample_demo
            and body = sample_demo_callback and sg = JUndefined] k t
  have same: "parseWebhook (sample_env\<lparr>clock := 1000\<rparr>) sample_demo sample_demo_callback JUndefined =
              parseWebhook (sample_env\<lparr>clock := 2000\<rparr>) sample_demo sample_demo_callback JUndefined"
    by blast
  have val: "parseWebhook (sample_env\<lparr>clock := 2000\<rparr>) sample_demo sample_demo_callback JUndefined =
       Inr (JObj [(''provider_message_id'', JStr ''demo-m1-1703081234567''),
                  (''status'', JStr ''delivered''),
                  (''timestamp'', JDate (JStr ''2023-12-20T14:07:18.000Z'')),
                  (''demo'', JBool True)])"
    by (simp add: parseWebhook_def k DemoProvider_parseWebhook_def DemoProvider_parseWebhook_try_def
        sample_demo_callback_def field_def js_or_def sample_env_def spec_normalizeStatus_def)
  have u: "\<not> truthy (field sample_demo_callback_untimed ''timestamp'')"
    by (simp add: sample_demo_callback_untimed_def field_def)
  have tr: "parseWebhook_try (sample_env\<lparr>clock := 1000\<rparr>) sample_demo sample_demo_callback_untimed JUndefined =
       Inr (JObj [(''provider_message_id'', JStr ''demo-m1-1703081234567''),
                  (''status'', JStr ''delivered''),
                  (''timestamp'', JDate (JDate (JNum 1000))),
                  (''demo'', JBool True)])"
    by (simp add: parseWebhook_try_def k DemoProvider_parseWebhook_try_def
        sample_demo_callback_untimed_def field_def js_or_def sample_env_def spec_normalizeStatus_def)
  have ne: "(1000::int) \<noteq> 2000"
    by simp
  from parseWebhook_repeatable_up_to_timestamp
         [where E = sample_env and ta = 1000 and tb = 2000 and p = sample_demo
            and body = sample_demo_callback_untimed and sg = JUndefined] k u tr ne
  have diff: "parseWebhook (sample_env\<lparr>clock := 1000\<rparr>) sample_demo sample_demo_callback_untimed JUndefined \<noteq>
       parseWebhook (sample_env\<lparr>clock := 2000\<rparr>) sample_demo sample_demo_callback_untimed JUndefined"
    by blast
  from k t same val u tr diff show ?thesis by blast
qed

text \<open>
  C9 as stated fails: the demo adapter, which checks no signature, stamps a callback that
  has no timestamp with \<open>new Date()\<close>, so the same callback parsed at clock 1000 and
  at clock 2000 gives two results with different timestamps.
\<close>

theorem parseWebhook_timestamp_counterexample:
  "parseWebhook (sample_env\<lparr>clock := 1000\<rparr>) sample_demo sample_demo_callback_untimed JUndefined =
     Inr (JObj [(''provider_message_id'', JStr ''demo-m1-1703081234567''),
                (''status'', JStr ''delivered''),
                (''timestamp'', JDate (JDate (JNum 1000))),
                (''demo'', JBool True)])
   \<and> parseWebhook (sample_env\<lparr>clock := 2000\<rparr>) sample_demo sample_demo_callback_untimed JUndefined =
     Inr (JObj [(''provider_message_id'', JStr ''demo-m1-1703081234567''),
                (''status'', JStr ''delivered''),
                (''timestamp'', JDate (JDate (JNum 2000))),
                (''demo'', JBool True)])
   \<and> JDate (JDate (JNum 1000)) \<noteq> JDate (JDate (JNum 2000))"
  by (simp add: parseWebhook_def sample_demo_def DemoProvider_parseWebhook_def
      DemoProvider_parseWebhook_try_def sample_demo_callback_untimed_def
      field_def js_or_def sample_env_def spec_normalizeStatus_def)


subsection \<open>A row without a blob\<close>








end
